theory Spec2Isabelle
  imports Complex_Main "HOL-Library.Multiset"
begin

section \<open>Strings and numbers of the script\<close>

text \<open>
  The script \<^verbatim>\<open>risk_quadrant_app.py\<close> works on Python strings that are mostly Chinese.
  A Python \<^verbatim>\<open>str\<close> is a sequence of Unicode code points, so a string is modelled as the
  list of its code points; an ASCII literal is written through \<open>ustr\<close>.
\<close>

type_synonym ustring = "nat list"

definition ustr :: "string \<Rightarrow> ustring" where
  "ustr s = map of_char s"

text \<open>
  A cell of the data frame is a float64: a number or NaN (an empty spreadsheet cell).
  Numbers are modelled as reals, so the arithmetic of the model is exact; every ordered
  comparison with NaN is false, as in IEEE 754 and in Python.
\<close>

datatype pyfloat = Val real | NaN

fun ge_f :: "pyfloat \<Rightarrow> real \<Rightarrow> bool" where
  "ge_f (Val x) r = (r \<le> x)"
| "ge_f NaN r = False"

fun lt_f :: "pyfloat \<Rightarrow> real \<Rightarrow> bool" where
  "lt_f (Val x) r = (x < r)"
| "lt_f NaN r = False"

section \<open>The quadrant classifier\<close>

text \<open>
  A row of the frame \<^verbatim>\<open>risk_data\<close> (lines 114-118): the columns U+98CE U+9669 U+7C7B U+522B
  (risk category), U+60C5 U+7EEA U+503C (sentiment value) and U+5173 U+6CE8 U+5EA6 (attention).
\<close>

record risk_row =
  category :: ustring
  sentiment :: pyfloat
  attention :: pyfloat

text \<open>The four string literals that \<^verbatim>\<open>get_quadrant\<close> returns (lines 128, 130, 132, 134).\<close>

definition label_I :: ustring where
  "label_I = [0x2160, 0x20, 0x2D, 0x20, 0x5E02, 0x573A, 0x5F3A, 0x52BF, 0x4FE1, 0x53F7]"

definition label_II :: ustring where
  "label_II = [0x2161, 0x20, 0x2D, 0x20, 0x5E02, 0x573A, 0x6050, 0x614C, 0x2F, 0x98CE, 0x9669,
     0x8B66, 0x62A5]"

definition label_III :: ustring where
  "label_III = [0x2162, 0x20, 0x2D, 0x20, 0x6F5C, 0x5728, 0x98CE, 0x9669, 0x672A, 0x7206, 0x53D1]"

definition label_IV :: ustring where
  "label_IV = [0x2163, 0x20, 0x2D, 0x20, 0x51B7, 0x95E8, 0x5229, 0x597D]"

text \<open>
  \<^verbatim>\<open>get_quadrant(row)\<close>, lines 126-134. The threshold is the module-level variable
  \<^verbatim>\<open>attention_threshold\<close> that the function reads; here it is the first argument.
\<close>

definition get_quadrant :: "real \<Rightarrow> risk_row \<Rightarrow> ustring" where
  "get_quadrant attention_threshold row =
     (if ge_f (sentiment row) 0 \<and> ge_f (attention row) attention_threshold then label_I
      else if lt_f (sentiment row) 0 \<and> ge_f (attention row) attention_threshold then label_II
      else if lt_f (sentiment row) 0 \<and> lt_f (attention row) attention_threshold then label_III
      else label_IV)"

section \<open>The detail table\<close>

text \<open>
  \<^verbatim>\<open>Series.round(3)\<close> (lines 122-123) is numpy's \<^verbatim>\<open>around\<close>: the value is scaled by
  \<open>10 ^ 3\<close>, rounded to the nearest integer with halves going to the even neighbour,
  and scaled back. NaN stays NaN. The model does this on the exact real. numpy does it in
  float64, where the scaled value is itself rounded: the two agree except for a value
  whose scaled value lies within that rounding error of a half (the float64 written
  0.5015 scales to just below 501.5 and gives 0.501 where the real 0.5015 gives 0.502).
  No result below depends on how a value near a half is rounded.
\<close>

definition rint :: "real \<Rightarrow> int" where
  "rint x =
     (let f = \<lfloor>x\<rfloor>; d = x - of_int f
      in if d < 1/2 then f else if 1/2 < d then f + 1 else if even f then f else f + 1)"

fun round_f :: "nat \<Rightarrow> pyfloat \<Rightarrow> pyfloat" where
  "round_f n (Val x) = Val (of_int (rint (x * 10 ^ n)) / 10 ^ n)"
| "round_f n NaN = NaN"

text \<open>
  \<^verbatim>\<open>sort_values(by=[attention, sentiment], ascending=[False, False])\<close> (line 118) is a
  stable lexicographic sort, each key descending, with NaN after every number of its key
  (pandas' default \<^verbatim>\<open>na_position='last'\<close>). \<open>before_f x y\<close> says that key \<open>x\<close> comes
  strictly before key \<open>y\<close>; the sort is an insertion sort that keeps rows with equal keys
  in their order.
\<close>

fun before_f :: "pyfloat \<Rightarrow> pyfloat \<Rightarrow> bool" where
  "before_f (Val x) (Val y) = (y < x)"
| "before_f (Val x) NaN = True"
| "before_f NaN y = False"

definition row_before :: "risk_row \<Rightarrow> risk_row \<Rightarrow> bool" where
  "row_before x y =
     (before_f (attention x) (attention y)
      \<or> (attention x = attention y \<and> before_f (sentiment x) (sentiment y)))"

fun insert_row :: "risk_row \<Rightarrow> risk_row list \<Rightarrow> risk_row list" where
  "insert_row r [] = [r]"
| "insert_row r (x # xs) = (if row_before x r then x # insert_row r xs else r # x # xs)"

definition sort_values :: "risk_row list \<Rightarrow> risk_row list" where
  "sort_values rows = foldr insert_row rows []"

text \<open>
  \<^verbatim>\<open>risk_data\<close> (lines 114-118): the frame built from the three parallel lists, one row
  per (category, sentiment, attention) triple, then sorted.
\<close>

definition mk_row :: "ustring \<times> pyfloat \<times> pyfloat \<Rightarrow> risk_row" where
  "mk_row tr = (case tr of (c, s, a) \<Rightarrow> \<lparr>category = c, sentiment = s, attention = a\<rparr>)"

definition risk_data :: "(ustring \<times> pyfloat \<times> pyfloat) list \<Rightarrow> risk_row list" where
  "risk_data triples = sort_values (map mk_row triples)"

text \<open>
  \<^verbatim>\<open>formatted_risk_data\<close> (lines 121-136): a copy of the sorted frame whose two numeric
  columns are rounded to 3 decimals, and then the quadrant column, computed by applying
  \<^verbatim>\<open>get_quadrant\<close> to each row of that copy, so to the rounded values.
\<close>

record detail_row = risk_row +
  quadrant :: ustring

definition round_row :: "risk_row \<Rightarrow> risk_row" where
  "round_row r = r\<lparr>sentiment := round_f 3 (sentiment r), attention := round_f 3 (attention r)\<rparr>"

definition add_quadrant :: "real \<Rightarrow> risk_row \<Rightarrow> detail_row" where
  "add_quadrant attention_threshold r =
     \<lparr>category = category r, sentiment = sentiment r, attention = attention r,
      quadrant = get_quadrant attention_threshold r\<rparr>"

definition formatted_risk_data ::
  "real \<Rightarrow> (ustring \<times> pyfloat \<times> pyfloat) list \<Rightarrow> detail_row list" where
  "formatted_risk_data attention_threshold triples =
     map (add_quadrant attention_threshold) (map round_row (risk_data triples))"

section \<open>The observation table and the row selector\<close>

text \<open>
  A \<^verbatim>\<open>datetime.date\<close> has a year, a month and a day. The \<^verbatim>\<open>date\<close> column of the frame
  holds pandas timestamps (line 27): a date and a time of day; \<^verbatim>\<open>.dt.date\<close> keeps the date.
\<close>

record pydate =
  year :: nat
  month :: nat
  day :: nat

record timestamp =
  ts_date :: pydate
  ts_nanos :: nat

text \<open>
  A row of the frame \<^verbatim>\<open>df\<close>: its timestamp and its numeric cells by column name. A name
  outside the domain of \<open>cells\<close> is a column the sheet does not have; an empty cell of a
  column the sheet has is NaN.
\<close>

record obs =
  obs_date :: timestamp
  cells :: "ustring \<rightharpoonup> pyfloat"

type_synonym table = "obs list"

text \<open>
  The exceptions the rendering pass can raise: \<^verbatim>\<open>KeyError\<close> from indexing a row by a column
  name it does not have (lines 66-67), \<^verbatim>\<open>IndexError\<close> from the positional access
  \<^verbatim>\<open>.iloc[0]\<close> on a selection with no rows (line 62).
\<close>

datatype error = KeyError ustring | IndexError

text \<open>Line 62: the rows whose date is the selected one, then the first of them.\<close>

definition selected_data :: "table \<Rightarrow> pydate \<Rightarrow> error + obs" where
  "selected_data df selected_date =
     (case filter (\<lambda>r. ts_date (obs_date r) = selected_date) df of
        [] \<Rightarrow> Inl IndexError
      | r # rest \<Rightarrow> Inr r)"

text \<open>
  Line 65, the nine categories: interest rate, geopolitics, technology, policy, exchange
  rate, environment, society, recession, inflation.
\<close>

definition risk_categories :: "ustring list" where
  "risk_categories =
     [[0x5229, 0x7387], [0x5730, 0x7F18, 0x653F, 0x6CBB], [0x6280, 0x672F], [0x653F, 0x7B56],
      [0x6C47, 0x7387], [0x73AF, 0x5883], [0x793E, 0x4F1A], [0x8870, 0x9000], [0x901A, 0x80C0]]"

text \<open>
  The column names of lines 66-67: the category followed by \<^verbatim>\<open>_\<close> U+60C5 U+7EEA
  (sentiment) or by \<^verbatim>\<open>_\<close> U+5173 U+6CE8 U+5EA6 (attention).
\<close>

definition sentiment_col :: "ustring \<Rightarrow> ustring" where
  "sentiment_col cat = cat @ [0x5F, 0x60C5, 0x7EEA]"

definition attention_col :: "ustring \<Rightarrow> ustring" where
  "attention_col cat = cat @ [0x5F, 0x5173, 0x6CE8, 0x5EA6]"

definition get_cell :: "obs \<Rightarrow> ustring \<Rightarrow> error + pyfloat" where
  "get_cell row k = (case cells row k of None \<Rightarrow> Inl (KeyError k) | Some v \<Rightarrow> Inr v)"

text \<open>A list comprehension over column names: the first missing column raises.\<close>

fun get_cells :: "obs \<Rightarrow> ustring list \<Rightarrow> error + pyfloat list" where
  "get_cells row [] = Inr []"
| "get_cells row (k # ks) =
     (case get_cell row k of
        Inl e \<Rightarrow> Inl e
      | Inr v \<Rightarrow> (case get_cells row ks of Inl e \<Rightarrow> Inl e | Inr vs \<Rightarrow> Inr (v # vs)))"

definition sentiments :: "obs \<Rightarrow> error + pyfloat list" where
  "sentiments row = get_cells row (map sentiment_col risk_categories)"

definition attention_values :: "obs \<Rightarrow> error + pyfloat list" where
  "attention_values row = get_cells row (map attention_col risk_categories)"

section \<open>The chart\<close>

text \<open>
  \<^verbatim>\<open>strftime("%Y-%m-%d")\<close> of a date (line 101), as CPython gives it through the C library
  of Linux, the platform of the deployment path of line 20: \<^verbatim>\<open>%Y\<close> is the year in decimal
  without leading zeros (year 999 gives \<^verbatim>\<open>999\<close>), \<^verbatim>\<open>%m\<close> and \<^verbatim>\<open>%d\<close> are the month and
  the day on two digits, zero padded. A \<^verbatim>\<open>datetime.date\<close> has a year from 1 to 9999.
\<close>

definition digit :: "nat \<Rightarrow> nat" where
  "digit n = 0x30 + n mod 10"

fun decimal :: "nat \<Rightarrow> ustring" where
  "decimal n = (if n < 10 then [digit n] else decimal (n div 10) @ [digit n])"

declare decimal.simps [simp del]

definition strftime_ymd :: "pydate \<Rightarrow> ustring" where
  "strftime_ymd d =
     decimal (year d)
     @ [0x2D, digit (month d div 10), digit (month d),
        0x2D, digit (day d div 10), digit (day d)]"


text \<open>
  The content of a figure with one axes, as far as lines 70-104 write it: the scatter
  points, the annotations with their offset in points, the horizontal and the vertical
  lines, the axis ranges (\<open>None\<close> while no range has been set), the axis labels, the texts
  with their positions, and the title.
\<close>

record layout =
  scatter :: "(pyfloat \<times> pyfloat) list"
  annotations :: "(ustring \<times> (pyfloat \<times> pyfloat) \<times> (int \<times> int)) list"
  axhlines :: "real list"
  axvlines :: "real list"
  xlim :: "(real \<times> real) option"
  ylim :: "(real \<times> real) option"
  xlabel :: ustring
  ylabel :: ustring
  texts :: "(real \<times> real \<times> ustring) list"
  title :: ustring

definition text_I :: ustring where
  "text_I = [0x5E02, 0x573A, 0x5F3A, 0x52BF, 0x4FE1, 0x53F7, 0xA, 0x28, 0x2160, 0x29]"

definition text_II :: ustring where
  "text_II = [0x5E02, 0x573A, 0x6050, 0x614C, 0x2F, 0x98CE, 0x9669, 0x8B66, 0x62A5, 0xA, 0x28,
     0x2161, 0x29]"

definition text_III :: ustring where
  "text_III = [0x6F5C, 0x5728, 0x98CE, 0x9669, 0x672A, 0x7206, 0x53D1, 0xA, 0x28, 0x2162, 0x29]"

definition text_IV :: ustring where
  "text_IV = [0x51B7, 0x95E8, 0x5229, 0x597D, 0xA, 0x28, 0x2163, 0x29]"

definition title_prefix :: ustring where
  "title_prefix = [0x5B8F, 0x89C2, 0x98CE, 0x9669, 0x8C61, 0x9650, 0x56FE, 0xFF08, 0x65E5, 0x671F,
     0x3A, 0x20]"

definition title_suffix :: ustring where
  "title_suffix = [0xFF09]"

text \<open>
  What lines 70-104 leave on the axes of a figure that was empty: this is the figure that
  line 110 shows.
\<close>

definition chart_layout ::
  "real \<Rightarrow> pydate \<Rightarrow> ustring list \<Rightarrow> pyfloat list \<Rightarrow> pyfloat list \<Rightarrow> layout" where
  "chart_layout attention_threshold selected_date cats ss as =
     \<lparr>scatter = zip ss as,
      annotations = map (\<lambda>(txt, xy). (txt, xy, (5, 5))) (zip cats (zip ss as)),
      axhlines = [attention_threshold],
      axvlines = [0],
      xlim = Some (- 1, 1),
      ylim = Some (0, 11/10),
      xlabel = [0x60C5, 0x7EEA, 0x503C],
      ylabel = [0x5173, 0x6CE8, 0x5EA6],
      texts = [(1/2, (1 + attention_threshold) / 2, text_I),
               (- (1/2), (1 + attention_threshold) / 2, text_II),
               (- (1/2), attention_threshold / 2, text_III),
               (1/2, attention_threshold / 2, text_IV)],
      title = title_prefix @ strftime_ymd selected_date @ title_suffix\<rparr>"

section \<open>One rendering pass\<close>

text \<open>
  Lines 62-137 for a loaded table, a selected date and a threshold: the selected row, the
  two value lists, the chart, the table. An exception ends the pass. Here the chart is the
  content of a figure that was empty; the next section follows the plotting calls through
  the state of the plotting library.
\<close>

definition pipeline :: "table \<Rightarrow> pydate \<Rightarrow> real \<Rightarrow> error + (layout \<times> detail_row list)" where
  "pipeline df selected_date attention_threshold =
     (case selected_data df selected_date of
        Inl e \<Rightarrow> Inl e
      | Inr row \<Rightarrow>
          (case sentiments row of
             Inl e \<Rightarrow> Inl e
           | Inr ss \<Rightarrow>
               (case attention_values row of
                  Inl e \<Rightarrow> Inl e
                | Inr as \<Rightarrow>
                    Inr (chart_layout attention_threshold selected_date risk_categories ss as,
                         formatted_risk_data attention_threshold
                           (zip risk_categories (zip ss as))))))"

section \<open>The plotting calls and their state\<close>

text \<open>
  The \<^verbatim>\<open>pyplot\<close> interface that lines 70-104 use keeps global state: the figures that are
  open, oldest first, the last one being the current figure, and \<^verbatim>\<open>rcParams\<close>, of which
  the script writes two entries. The script never closes a figure.
\<close>

record pyplot_state =
  figures :: "layout list"
  font_sans_serif :: "ustring list"
  axes_unicode_minus :: bool

definition new_axes :: layout where
  "new_axes =
     \<lparr>scatter = [], annotations = [], axhlines = [], axvlines = [], xlim = None, ylim = None,
      xlabel = [], ylabel = [], texts = [], title = []\<rparr>"

text \<open>
  \<^verbatim>\<open>plt.subplots\<close> opens a new figure, makes it the current one and returns it (here: its
  position among the figures).
\<close>

definition plt_subplots :: "pyplot_state \<Rightarrow> nat \<times> pyplot_state" where
  "plt_subplots st = (length (figures st), st\<lparr>figures := figures st @ [new_axes]\<rparr>)"

text \<open>
  Every other \<^verbatim>\<open>plt\<close> call of the script acts on the axes of the current figure; \<^verbatim>\<open>pyplot\<close>
  opens a figure first when none is open.
\<close>

definition on_gca :: "(layout \<Rightarrow> layout) \<Rightarrow> pyplot_state \<Rightarrow> pyplot_state" where
  "on_gca f st =
     (if figures st = [] then st\<lparr>figures := [f new_axes]\<rparr>
      else st\<lparr>figures := butlast (figures st) @ [f (last (figures st))]\<rparr>)"

definition plt_scatter :: "pyfloat list \<Rightarrow> pyfloat list \<Rightarrow> pyplot_state \<Rightarrow> pyplot_state" where
  "plt_scatter xs ys = on_gca (\<lambda>a. a\<lparr>scatter := scatter a @ zip xs ys\<rparr>)"

definition plt_annotate :: "ustring \<Rightarrow> pyfloat \<times> pyfloat \<Rightarrow> pyplot_state \<Rightarrow> pyplot_state" where
  "plt_annotate txt xy = on_gca (\<lambda>a. a\<lparr>annotations := annotations a @ [(txt, xy, (5, 5))]\<rparr>)"

definition plt_axhline :: "real \<Rightarrow> pyplot_state \<Rightarrow> pyplot_state" where
  "plt_axhline y = on_gca (\<lambda>a. a\<lparr>axhlines := axhlines a @ [y]\<rparr>)"

definition plt_axvline :: "real \<Rightarrow> pyplot_state \<Rightarrow> pyplot_state" where
  "plt_axvline x = on_gca (\<lambda>a. a\<lparr>axvlines := axvlines a @ [x]\<rparr>)"

definition plt_xlim :: "real \<Rightarrow> real \<Rightarrow> pyplot_state \<Rightarrow> pyplot_state" where
  "plt_xlim lo hi = on_gca (\<lambda>a. a\<lparr>xlim := Some (lo, hi)\<rparr>)"

definition plt_ylim :: "real \<Rightarrow> real \<Rightarrow> pyplot_state \<Rightarrow> pyplot_state" where
  "plt_ylim lo hi = on_gca (\<lambda>a. a\<lparr>ylim := Some (lo, hi)\<rparr>)"

definition plt_xlabel :: "ustring \<Rightarrow> pyplot_state \<Rightarrow> pyplot_state" where
  "plt_xlabel s = on_gca (\<lambda>a. a\<lparr>xlabel := s\<rparr>)"

definition plt_ylabel :: "ustring \<Rightarrow> pyplot_state \<Rightarrow> pyplot_state" where
  "plt_ylabel s = on_gca (\<lambda>a. a\<lparr>ylabel := s\<rparr>)"

definition plt_text :: "real \<Rightarrow> real \<Rightarrow> ustring \<Rightarrow> pyplot_state \<Rightarrow> pyplot_state" where
  "plt_text x y s = on_gca (\<lambda>a. a\<lparr>texts := texts a @ [(x, y, s)]\<rparr>)"

definition plt_title :: "ustring \<Rightarrow> pyplot_state \<Rightarrow> pyplot_state" where
  "plt_title s = on_gca (\<lambda>a. a\<lparr>title := s\<rparr>)"

text \<open>
  Lines 70-104 in their order, as calls on the plotting state; the result is the figure of
  line 70 and the state after line 104. The loop of lines 79-82 pairs each category with
  the values at its index; the two value lists have one entry per category.
\<close>

definition draw_chart ::
  "real \<Rightarrow> pydate \<Rightarrow> pyfloat list \<Rightarrow> pyfloat list \<Rightarrow> pyplot_state \<Rightarrow> nat \<times> pyplot_state" where
  "draw_chart attention_threshold selected_date ss as st =
     (let (fig, s1) = plt_subplots st;
          s2 = s1\<lparr>font_sans_serif := [ustr ''Arial Unicode MS'']\<rparr>;
          s3 = s2\<lparr>axes_unicode_minus := False\<rparr>;
          s4 = plt_scatter ss as s3;
          s5 = fold (\<lambda>(txt, xy). plt_annotate txt xy) (zip risk_categories (zip ss as)) s4;
          s6 = plt_axhline attention_threshold s5;
          s7 = plt_axvline 0 s6;
          s8 = plt_xlim (- 1) 1 s7;
          s9 = plt_ylim 0 (11/10) s8;
          s10 = plt_xlabel [0x60C5, 0x7EEA, 0x503C] s9;
          s11 = plt_ylabel [0x5173, 0x6CE8, 0x5EA6] s10;
          s12 = plt_text (1/2) ((1 + attention_threshold) / 2) text_I s11;
          s13 = plt_text (- (1/2)) ((1 + attention_threshold) / 2) text_II s12;
          s14 = plt_text (- (1/2)) (attention_threshold / 2) text_III s13;
          s15 = plt_text (1/2) (attention_threshold / 2) text_IV s14;
          s16 = plt_title (title_prefix @ strftime_ymd selected_date @ title_suffix) s15
      in (fig, s16))"

text \<open>\<^verbatim>\<open>st.pyplot(fig)\<close> (line 110) shows the figure it is given and leaves it open.\<close>

definition st_pyplot :: "nat \<Rightarrow> pyplot_state \<Rightarrow> layout" where
  "st_pyplot fig st = figures st ! fig"

text \<open>
  One pass of lines 62-137 started in a state of the plotting library: what it shows (the
  figure and the table, or the exception that ended it) and the state it leaves. A pass
  that raises at lines 62-67 has not reached the plotting calls.
\<close>

definition run_pass ::
  "table \<Rightarrow> pydate \<Rightarrow> real \<Rightarrow> pyplot_state
     \<Rightarrow> (error + (layout \<times> detail_row list)) \<times> pyplot_state" where
  "run_pass df selected_date attention_threshold st =
     (case selected_data df selected_date of
        Inl e \<Rightarrow> (Inl e, st)
      | Inr row \<Rightarrow>
          (case sentiments row of
             Inl e \<Rightarrow> (Inl e, st)
           | Inr ss \<Rightarrow>
               (case attention_values row of
                  Inl e \<Rightarrow> (Inl e, st)
                | Inr as \<Rightarrow>
                    (let (fig, st') = draw_chart attention_threshold selected_date ss as st
                     in (Inr (st_pyplot fig st',
                              formatted_risk_data attention_threshold
                                (zip risk_categories (zip ss as))),
                         st')))))"

section \<open>The loader\<close>

















section \<open>The sidebar controls\<close>

record slider =
  min_value :: real
  max_value :: real
  default_value :: real
  step :: real

text \<open>Lines 45-51.\<close>

definition attention_threshold_slider :: slider where
  "attention_threshold_slider =
     \<lparr>min_value = 0, max_value = 1, default_value = 3/10, step = 1/20\<rparr>"

text \<open>\<^verbatim>\<open>unique()\<close> keeps the first occurrence of each value, in the order of the column.\<close>

fun unique :: "'a list \<Rightarrow> 'a list" where
  "unique [] = []"
| "unique (x # xs) = x # unique (filter (\<lambda>y. y \<noteq> x) xs)"

text \<open>Line 54.\<close>

definition available_dates :: "table \<Rightarrow> pydate list" where
  "available_dates df = unique (map (\<lambda>r. ts_date (obs_date r)) df)"

text \<open>
  Lines 55-59: the select box offers \<open>available_dates\<close> and starts at the index
  \<open>len(available_dates) - 1\<close>; with no options it yields \<^verbatim>\<open>None\<close>.
\<close>

definition default_selected_date :: "table \<Rightarrow> pydate option" where
  "default_selected_date df =
     (if available_dates df = [] then None
      else Some (available_dates df ! (length (available_dates df) - 1)))"

text \<open>The calendar order of dates.\<close>

definition date_less :: "pydate \<Rightarrow> pydate \<Rightarrow> bool" where
  "date_less a b =
     (year a < year b
      \<or> (year a = year b \<and> (month a < month b \<or> (month a = month b \<and> day a < day b))))"

section \<open>Example data\<close>

text \<open>
  A row of a sheet, from its timestamp and its sentiment and attention values in the order
  of the categories. A list shorter than nine leaves the columns of the last categories
  out of the sheet.
\<close>

definition sheet_row :: "timestamp \<Rightarrow> pyfloat list \<Rightarrow> pyfloat list \<Rightarrow> obs" where
  "sheet_row ts ss as =
     \<lparr>obs_date = ts,
      cells = map_of (zip (map sentiment_col risk_categories) ss
                @ zip (map attention_col risk_categories) as)\<rparr>"

section \<open>Properties of the classifier\<close>

lemma labels_distinct: "distinct [label_I, label_II, label_III, label_IV]"
  by (simp add: label_I_def label_II_def label_III_def label_IV_def)

text \<open>
  Claim C1. For all real sentiment \<open>s\<close>, attention \<open>a\<close> and threshold \<open>t\<close> the classifier
  returns one of the four labels, the four labels are pairwise different, each label is
  returned exactly under its guard of the specification, and exactly one of the four
  guards holds. The classifier has no error result: its value is a label.
\<close>

theorem get_quadrant_total_partition:
  fixes s a t :: real
  shows "get_quadrant t \<lparr>category = c, sentiment = Val s, attention = Val a\<rparr>
           \<in> set [label_I, label_II, label_III, label_IV]
       \<and> distinct [label_I, label_II, label_III, label_IV]
       \<and> (get_quadrant t \<lparr>category = c, sentiment = Val s, attention = Val a\<rparr> = label_I)
           = (0 \<le> s \<and> t \<le> a)
       \<and> (get_quadrant t \<lparr>category = c, sentiment = Val s, attention = Val a\<rparr> = label_II)
           = (s < 0 \<and> t \<le> a)
       \<and> (get_quadrant t \<lparr>category = c, sentiment = Val s, attention = Val a\<rparr> = label_III)
           = (s < 0 \<and> a < t)
       \<and> (get_quadrant t \<lparr>category = c, sentiment = Val s, attention = Val a\<rparr> = label_IV)
           = (0 \<le> s \<and> a < t)
       \<and> length (filter (\<lambda>g. g)
             [0 \<le> s \<and> t \<le> a, s < 0 \<and> t \<le> a, s < 0 \<and> a < t, 0 \<le> s \<and> a < t]) = 1"
proof -
  have d: "distinct [label_I, label_II, label_III, label_IV]"
    by (rule labels_distinct)
  consider "0 \<le> s" "t \<le> a" | "s < 0" "t \<le> a" | "s < 0" "a < t" | "0 \<le> s" "a < t"
    by linarith
  then show ?thesis
  proof cases
    case 1
    then show ?thesis using d by (auto simp: get_quadrant_def)
  next
    case 2
    then show ?thesis using d by (auto simp: get_quadrant_def)
  next
    case 3
    then show ?thesis using d by (auto simp: get_quadrant_def)
  next
    case 4
    then show ?thesis using d by (auto simp: get_quadrant_def)
  qed
qed

theorem get_quadrant_total_partition_witness:
  "get_quadrant (3/10) \<lparr>category = [0x5229, 0x7387], sentiment = Val (2/5), attention = Val (1/2)\<rparr>
     = label_I"
  using get_quadrant_total_partition [of "3/10" "[0x5229, 0x7387]" "2/5" "1/2"]
  by simp

text \<open>
  Claim C2. For every threshold \<open>t\<close>, sentiment 0 with attention exactly \<open>t\<close> is
  classified I, and every sentiment strictly below 0 with attention exactly \<open>t\<close> is
  classified II, in particular sentiment -0.0001.
\<close>

theorem get_quadrant_ties:
  fixes t :: real
  shows "get_quadrant t \<lparr>category = c, sentiment = Val 0, attention = Val t\<rparr> = label_I
       \<and> (\<forall>s. s < 0 \<longrightarrow>
            get_quadrant t \<lparr>category = c, sentiment = Val s, attention = Val t\<rparr> = label_II)
       \<and> get_quadrant t \<lparr>category = c, sentiment = Val (- (1/10000)), attention = Val t\<rparr>
            = label_II"
  by (simp add: get_quadrant_def)

theorem get_quadrant_ties_witness:
  "(- (1/2) :: real) < 0
   \<and> get_quadrant (3/10) \<lparr>category = [], sentiment = Val (- (1/2)), attention = Val (3/10)\<rparr>
       = label_II"
  using get_quadrant_ties [of "3/10" "[]"]
  by simp

section \<open>Properties of the detail table\<close>

lemma mset_insert_row: "mset (insert_row r xs) = add_mset r (mset xs)"
  by (induction xs) auto

lemma mset_sort_values: "mset (sort_values rows) = mset rows"
  by (induction rows) (auto simp: sort_values_def mset_insert_row)

lemma set_insert_row: "set (insert_row r xs) = insert r (set xs)"
  by (induction xs) auto

lemma before_f_asym: "before_f x y \<Longrightarrow> \<not> before_f y x"
  by (cases x; cases y) auto

lemma before_f_trans: "before_f x y \<Longrightarrow> before_f y z \<Longrightarrow> before_f x z"
  by (cases x; cases y; cases z) auto

lemma before_f_total: "before_f x y \<or> x = y \<or> before_f y x"
  by (cases x; cases y) auto

lemma row_before_asym: "row_before x y \<Longrightarrow> \<not> row_before y x"
  unfolding row_before_def using before_f_asym by metis

lemma not_row_before_trans:
  assumes "\<not> row_before y x" and "\<not> row_before z y"
  shows "\<not> row_before z x"
proof -
  have a: "before_f (attention x) (attention y) \<or> attention x = attention y"
    using assms(1) before_f_total [of "attention x" "attention y"]
    by (auto simp: row_before_def)
  have b: "before_f (attention y) (attention z) \<or> attention y = attention z"
    using assms(2) before_f_total [of "attention y" "attention z"]
    by (auto simp: row_before_def)
  show ?thesis
  proof (cases "attention x = attention y \<and> attention y = attention z")
    case True
    then have "\<not> before_f (sentiment y) (sentiment x)"
      and "\<not> before_f (sentiment z) (sentiment y)"
      using assms by (auto simp: row_before_def)
    then have "\<not> before_f (sentiment z) (sentiment x)"
      using before_f_total [of "sentiment x" "sentiment y"]
        before_f_total [of "sentiment y" "sentiment z"]
        before_f_trans [of "sentiment x" "sentiment y" "sentiment z"]
        before_f_asym [of "sentiment x" "sentiment z"]
      by metis
    with True show ?thesis
      using before_f_asym [of "attention z" "attention z"] by (auto simp: row_before_def)
  next
    case False
    then have "before_f (attention x) (attention z)"
      using a b before_f_trans [of "attention x" "attention y" "attention z"] by metis
    then show ?thesis
      using before_f_asym [of "attention x" "attention z"]
      by (auto simp: row_before_def)
  qed
qed

lemma sorted_insert_row:
  "sorted_wrt (\<lambda>x y. \<not> row_before y x) xs
     \<Longrightarrow> sorted_wrt (\<lambda>x y. \<not> row_before y x) (insert_row r xs)"
proof (induction xs)
  case Nil
  then show ?case by simp
next
  case (Cons x xs)
  show ?case
  proof (cases "row_before x r")
    case True
    then have "\<not> row_before r x"
      using row_before_asym by blast
    with True Cons show ?thesis by (auto simp: set_insert_row)
  next
    case False
    then have "\<forall>y\<in>set xs. \<not> row_before y r"
      using Cons.prems not_row_before_trans by auto
    with False Cons.prems show ?thesis by simp
  qed
qed

lemma sorted_sort_values: "sorted_wrt (\<lambda>x y. \<not> row_before y x) (sort_values rows)"
  by (induction rows) (auto simp: sort_values_def sorted_insert_row)

lemma formatted_quadrant_rounded:
  "map quadrant (formatted_risk_data t triples)
     = map (\<lambda>r. get_quadrant t (round_row r)) (risk_data triples)"
  by (simp add: formatted_risk_data_def add_quadrant_def comp_def)

text \<open>
  Claim C3, evaluated on the code. The claim says that the label of the table is the
  classifier applied to the unrounded values. The script classifies the rows of the
  rounded copy: for the interest-rate category with sentiment -0.0001 and attention 0.5
  at threshold 0.3 the table shows label I (the sentiment was rounded to 0), while the
  classifier on the unrounded values gives II, which is also the region of the chart where
  the point is drawn.
\<close>

theorem formatted_quadrant_uses_rounded_values:
  "map quadrant (formatted_risk_data (3/10) [([0x5229, 0x7387], Val (- (1/10000)), Val (1/2))])
     = [label_I]
   \<and> get_quadrant (3/10)
       \<lparr>category = [0x5229, 0x7387], sentiment = Val (- (1/10000)), attention = Val (1/2)\<rparr>
     = label_II"
  by (simp add: formatted_risk_data_def risk_data_def sort_values_def mk_row_def round_row_def
      add_quadrant_def get_quadrant_def rint_def)

text \<open>
  Claim C4. For triples of real values the sorted frame \<^verbatim>\<open>risk_data\<close> is a rearrangement
  \<open>rs\<close> of the triples that is descending in the unrounded attention and, where the
  attention is equal, descending in the unrounded sentiment; the rows of the detail table
  are the rows of that frame, in the same order, rounded and labelled. For attentions
  0.5, 0.5, 0.2 and sentiments 0.1, 0.3, 0.9 the order of the table is second, first,
  third category.
\<close>

theorem risk_data_sorted_by_raw_values:
  fixes ts :: "(ustring \<times> real \<times> real) list"
  shows "(\<exists>rs. risk_data (map (\<lambda>(c, s, a). (c, Val s, Val a)) ts)
               = map (\<lambda>(c, s, a). \<lparr>category = c, sentiment = Val s, attention = Val a\<rparr>) rs
             \<and> mset rs = mset ts
             \<and> sorted_wrt (\<lambda>(c, s, a) (c', s', a'). a' < a \<or> (a' = a \<and> s' \<le> s)) rs)
       \<and> formatted_risk_data t (map (\<lambda>(c, s, a). (c, Val s, Val a)) ts)
           = map (\<lambda>r. add_quadrant t (round_row r))
               (risk_data (map (\<lambda>(c, s, a). (c, Val s, Val a)) ts))
       \<and> map category (formatted_risk_data t
             [([0x5229, 0x7387], Val (1/10), Val (1/2)),
              ([0x5730, 0x7F18, 0x653F, 0x6CBB], Val (3/10), Val (1/2)),
              ([0x6280, 0x672F], Val (9/10), Val (1/5))])
           = [[0x5730, 0x7F18, 0x653F, 0x6CBB], [0x5229, 0x7387], [0x6280, 0x672F]]"
proof -
  define mkR :: "ustring \<times> real \<times> real \<Rightarrow> risk_row"
    where "mkR = (\<lambda>(c, s, a). \<lparr>category = c, sentiment = Val s, attention = Val a\<rparr>)"
  define unR :: "risk_row \<Rightarrow> ustring \<times> real \<times> real"
    where "unR = (\<lambda>r. (category r,
      (case sentiment r of Val s \<Rightarrow> s | NaN \<Rightarrow> 0), (case attention r of Val a \<Rightarrow> a | NaN \<Rightarrow> 0)))"
  define rows where "rows = sort_values (map mkR ts)"
  define rs where "rs = map unR rows"
  have inv: "unR (mkR x) = x" for x
    by (cases x) (simp add: unR_def mkR_def)
  have rd: "risk_data (map (\<lambda>(c, s, a). (c, Val s, Val a)) ts) = rows"
    by (simp add: risk_data_def rows_def mkR_def mk_row_def comp_def case_prod_unfold)
  have ms: "mset rows = image_mset mkR (mset ts)"
    by (simp add: rows_def mset_sort_values)
  have "set rows = mkR ` set ts"
    using ms by (metis set_mset_mset set_image_mset)
  then have "mkR (unR r) = r" if "r \<in> set rows" for r
    using that inv by auto
  then have mk_un: "map mkR rs = rows"
    by (simp add: rs_def map_idI)
  have "mset rs = image_mset unR (image_mset mkR (mset ts))"
    by (simp add: rs_def ms)
  then have perm: "mset rs = mset ts"
    by (simp add: image_mset.compositionality comp_def inv)
  have "sorted_wrt (\<lambda>x y. \<not> row_before y x) (map mkR rs)"
    unfolding mk_un rows_def by (rule sorted_sort_values)
  then have "sorted_wrt (\<lambda>x y. \<not> row_before (mkR y) (mkR x)) rs"
    by (simp add: sorted_wrt_map)
  then have srt: "sorted_wrt (\<lambda>(c, s, a) (c', s', a'). a' < a \<or> (a' = a \<and> s' \<le> s)) rs"
    by (rule sorted_wrt_mono_rel [rotated]) (auto simp: mkR_def row_before_def)
  have ex: "\<exists>rs. risk_data (map (\<lambda>(c, s, a). (c, Val s, Val a)) ts)
               = map (\<lambda>(c, s, a). \<lparr>category = c, sentiment = Val s, attention = Val a\<rparr>) rs
             \<and> mset rs = mset ts
             \<and> sorted_wrt (\<lambda>(c, s, a) (c', s', a'). a' < a \<or> (a' = a \<and> s' \<le> s)) rs"
    using rd mk_un perm srt unfolding mkR_def by (intro exI [of _ rs]) simp
  have tab: "formatted_risk_data t (map (\<lambda>(c, s, a). (c, Val s, Val a)) ts)
           = map (\<lambda>r. add_quadrant t (round_row r))
               (risk_data (map (\<lambda>(c, s, a). (c, Val s, Val a)) ts))"
    by (simp add: formatted_risk_data_def comp_def)
  have exa: "map category (formatted_risk_data t
             [([0x5229, 0x7387], Val (1/10), Val (1/2)),
              ([0x5730, 0x7F18, 0x653F, 0x6CBB], Val (3/10), Val (1/2)),
              ([0x6280, 0x672F], Val (9/10), Val (1/5))])
           = [[0x5730, 0x7F18, 0x653F, 0x6CBB], [0x5229, 0x7387], [0x6280, 0x672F]]"
    by (simp add: formatted_risk_data_def risk_data_def sort_values_def mk_row_def
        row_before_def round_row_def add_quadrant_def)
  from ex tab exa show ?thesis by blast
qed

theorem risk_data_sorted_by_raw_values_witness:
  "risk_data [([1], Val (1/10), Val (1/2)), ([2], Val (3/10), Val (1/2)), ([3], Val (9/10), Val (1/5))]
     = [\<lparr>category = [2], sentiment = Val (3/10), attention = Val (1/2)\<rparr>,
        \<lparr>category = [1], sentiment = Val (1/10), attention = Val (1/2)\<rparr>,
        \<lparr>category = [3], sentiment = Val (9/10), attention = Val (1/5)\<rparr>]
   \<and> sorted_wrt (\<lambda>(c, s, a) (c', s', a'). a' < a \<or> (a' = a \<and> s' \<le> s))
       [([2::nat], 3/10 :: real, 1/2 :: real), ([1], 1/10, 1/2), ([3], 9/10, 1/5)]"
proof -
  obtain rs where
    "risk_data (map (\<lambda>(c, s, a). (c, Val s, Val a))
        [([1], 1/10, 1/2), ([2], 3/10, 1/2), ([3], 9/10, 1/5)])
      = map (\<lambda>(c, s, a). \<lparr>category = c, sentiment = Val s, attention = Val a\<rparr>) rs"
    using risk_data_sorted_by_raw_values
      [of "[([1], 1/10, 1/2), ([2], 3/10, 1/2), ([3], 9/10, 1/5)]" 0]
    by blast
  then show ?thesis
    by (simp add: risk_data_def sort_values_def mk_row_def row_before_def)
qed

section \<open>Properties of the row selector\<close>

text \<open>
  Claim C6, as stated, fails on the code: the claim wants a NotFound error from an explicit
  check. The script has no check; with no row of the selected date the failure is the
  \<^verbatim>\<open>IndexError\<close> of the positional access \<^verbatim>\<open>.iloc[0]\<close> itself. Here the table has one row,
  of 5 January 2024, and the date asked for is 6 January 2024.
\<close>

theorem selected_data_no_match_index_error:
  "selected_data
     [\<lparr>obs_date = \<lparr>ts_date = \<lparr>year = 2024, month = 1, day = 5\<rparr>, ts_nanos = 0\<rparr>,
       cells = Map.empty\<rparr>]
     \<lparr>year = 2024, month = 1, day = 6\<rparr>
   = Inl IndexError"
  by (simp add: selected_data_def)

text \<open>
  Claim C6, amended. The selector returns the first row of the table whose date is the
  selected one, whatever follows it; it returns a row whenever the table has one of that
  date; and when no row has that date it fails with the \<^verbatim>\<open>IndexError\<close> of the positional
  access.
\<close>

theorem selected_data_first_match:
  "(\<forall>pre r post.
      df = pre @ r # post \<and> ts_date (obs_date r) = d
        \<and> (\<forall>x\<in>set pre. ts_date (obs_date x) \<noteq> d)
      \<longrightarrow> selected_data df d = Inr r)
   \<and> ((\<exists>x\<in>set df. ts_date (obs_date x) = d) \<longrightarrow> (\<exists>r. selected_data df d = Inr r))
   \<and> ((\<forall>x\<in>set df. ts_date (obs_date x) \<noteq> d) \<longrightarrow> selected_data df d = Inl IndexError)"
proof (intro conjI allI impI)
  fix pre r post
  assume a: "df = pre @ r # post \<and> ts_date (obs_date r) = d
    \<and> (\<forall>x\<in>set pre. ts_date (obs_date x) \<noteq> d)"
  then have "filter (\<lambda>r. ts_date (obs_date r) = d) pre = []"
    by (simp add: filter_empty_conv)
  with a show "selected_data df d = Inr r"
    by (simp add: selected_data_def)
next
  assume "\<exists>x\<in>set df. ts_date (obs_date x) = d"
  then have "filter (\<lambda>r. ts_date (obs_date r) = d) df \<noteq> []"
    by (simp add: filter_empty_conv)
  then show "\<exists>r. selected_data df d = Inr r"
    by (cases "filter (\<lambda>r. ts_date (obs_date r) = d) df") (simp_all add: selected_data_def)
next
  assume "\<forall>x\<in>set df. ts_date (obs_date x) \<noteq> d"
  then have "filter (\<lambda>r. ts_date (obs_date r) = d) df = []"
    by (simp add: filter_empty_conv)
  then show "selected_data df d = Inl IndexError"
    by (simp add: selected_data_def)
qed

theorem selected_data_first_match_witness:
  "selected_data
     [\<lparr>obs_date = \<lparr>ts_date = \<lparr>year = 2024, month = 1, day = 5\<rparr>, ts_nanos = 0\<rparr>,
       cells = Map.empty\<rparr>,
      \<lparr>obs_date = \<lparr>ts_date = \<lparr>year = 2024, month = 1, day = 6\<rparr>, ts_nanos = 0\<rparr>,
       cells = Map.empty\<rparr>,
      \<lparr>obs_date = \<lparr>ts_date = \<lparr>year = 2024, month = 1, day = 6\<rparr>, ts_nanos = 7\<rparr>,
       cells = Map.empty\<rparr>]
     \<lparr>year = 2024, month = 1, day = 6\<rparr>
   = Inr \<lparr>obs_date = \<lparr>ts_date = \<lparr>year = 2024, month = 1, day = 6\<rparr>, ts_nanos = 0\<rparr>,
          cells = Map.empty\<rparr>
   \<and> selected_data
       [\<lparr>obs_date = \<lparr>ts_date = \<lparr>year = 2024, month = 1, day = 5\<rparr>, ts_nanos = 0\<rparr>,
         cells = Map.empty\<rparr>]
       \<lparr>year = 2024, month = 2, day = 1\<rparr>
     = Inl IndexError"
proof -
  let ?r1 = "\<lparr>obs_date = \<lparr>ts_date = \<lparr>year = 2024, month = 1, day = 5\<rparr>, ts_nanos = 0\<rparr>,
       cells = Map.empty\<rparr> :: obs"
  let ?r2 = "\<lparr>obs_date = \<lparr>ts_date = \<lparr>year = 2024, month = 1, day = 6\<rparr>, ts_nanos = 0\<rparr>,
       cells = Map.empty\<rparr> :: obs"
  let ?r3 = "\<lparr>obs_date = \<lparr>ts_date = \<lparr>year = 2024, month = 1, day = 6\<rparr>, ts_nanos = 7\<rparr>,
       cells = Map.empty\<rparr> :: obs"
  let ?d = "\<lparr>year = 2024, month = 1, day = 6\<rparr>"
  let ?e = "\<lparr>year = 2024, month = 2, day = 1\<rparr>"
  have h1: "[?r1, ?r2, ?r3] = [?r1] @ ?r2 # [?r3] \<and> ts_date (obs_date ?r2) = ?d
      \<and> (\<forall>x\<in>set [?r1]. ts_date (obs_date x) \<noteq> ?d)"
    by simp
  have h2: "\<forall>x\<in>set [?r1]. ts_date (obs_date x) \<noteq> ?e"
    by simp
  have "selected_data [?r1, ?r2, ?r3] ?d = Inr ?r2"
    using selected_data_first_match [of "[?r1, ?r2, ?r3]" ?d] h1 by blast
  moreover have "selected_data [?r1] ?e = Inl IndexError"
    using selected_data_first_match [of "[?r1]" ?e] h2 by blast
  ultimately show ?thesis by blast
qed

section \<open>Properties of the sidebar controls\<close>

lemma set_unique: "set (unique xs) = set xs"
  by (induction xs rule: unique.induct) auto

lemma distinct_unique: "distinct (unique xs)"
  by (induction xs rule: unique.induct) (auto simp: set_unique)

lemma available_dates_present:
  "set (available_dates df) = (\<lambda>r. ts_date (obs_date r)) ` set df
   \<and> distinct (available_dates df)"
  by (simp add: available_dates_def set_unique distinct_unique)

text \<open>
  Claim C9, evaluated on the code. The slider has the range 0 to 1, the step 0.05 and the
  default 0.3, and the options of the select box are the distinct dates of the table. The
  default selection is the last option in the order of the table, which the comment of
  line 58 calls the latest date: for a table whose rows are dated 1 February 2024 and
  then 1 January 2024, the default is 1 January 2024, although 1 February 2024 is
  offered and is later.
\<close>

theorem default_selected_date_last_listed:
  "attention_threshold_slider
     = \<lparr>min_value = 0, max_value = 1, default_value = 3/10, step = 1/20\<rparr>
   \<and> available_dates
       [\<lparr>obs_date = \<lparr>ts_date = \<lparr>year = 2024, month = 2, day = 1\<rparr>, ts_nanos = 0\<rparr>,
         cells = Map.empty\<rparr>,
        \<lparr>obs_date = \<lparr>ts_date = \<lparr>year = 2024, month = 1, day = 1\<rparr>, ts_nanos = 0\<rparr>,
         cells = Map.empty\<rparr>]
     = [\<lparr>year = 2024, month = 2, day = 1\<rparr>, \<lparr>year = 2024, month = 1, day = 1\<rparr>]
   \<and> default_selected_date
       [\<lparr>obs_date = \<lparr>ts_date = \<lparr>year = 2024, month = 2, day = 1\<rparr>, ts_nanos = 0\<rparr>,
         cells = Map.empty\<rparr>,
        \<lparr>obs_date = \<lparr>ts_date = \<lparr>year = 2024, month = 1, day = 1\<rparr>, ts_nanos = 0\<rparr>,
         cells = Map.empty\<rparr>]
     = Some \<lparr>year = 2024, month = 1, day = 1\<rparr>
   \<and> date_less \<lparr>year = 2024, month = 1, day = 1\<rparr> \<lparr>year = 2024, month = 2, day = 1\<rparr>"
  by (simp add: attention_threshold_slider_def available_dates_def default_selected_date_def
      date_less_def)

section \<open>Missing columns and missing values\<close>

lemma get_cells_Inr: "get_cells row ks = Inr vs \<Longrightarrow> map (cells row) ks = map Some vs"
  by (induction ks arbitrary: vs) (auto simp: get_cell_def split: option.splits sum.splits)

lemma get_cells_missing:
  "\<exists>k\<in>set ks. cells row k = None \<Longrightarrow> \<exists>k. get_cells row ks = Inl (KeyError k)"
proof (induction ks)
  case Nil
  then show ?case by simp
next
  case (Cons a ks)
  show ?case
  proof (cases "cells row a")
    case None
    then show ?thesis by (simp add: get_cell_def)
  next
    case (Some v)
    with Cons.prems have "\<exists>k\<in>set ks. cells row k = None" by auto
    then obtain k where "get_cells row ks = Inl (KeyError k)"
      using Cons.IH by blast
    with Some show ?thesis by (simp add: get_cell_def)
  qed
qed

lemma get_cells_present:
  "\<forall>k\<in>set ks. cells row k \<noteq> None \<Longrightarrow> \<exists>vs. get_cells row ks = Inr vs"
  by (induction ks) (auto simp: get_cell_def split: option.splits sum.splits)

lemma get_cells_only_KeyError: "get_cells row ks = Inl e \<Longrightarrow> \<exists>k. e = KeyError k"
  by (induction ks) (auto simp: get_cell_def split: option.splits sum.splits)

lemma zip_cells:
  assumes "map (cells row) (map f cats) = map Some vs" and "(c, v) \<in> set (zip cats vs)"
  shows "cells row (f c) = Some v"
proof -
  from assms(2) obtain i where i: "i < length cats" "i < length vs" "cats ! i = c" "vs ! i = v"
    by (auto simp: in_set_zip)
  have "map (cells row) (map f cats) ! i = map Some vs ! i"
    using assms(1) by simp
  with i show ?thesis by simp
qed

lemma set_sort_values: "set (sort_values rows) = set rows"
  by (metis mset_sort_values set_mset_mset)

lemma nan_row_label_IV:
  "sentiment r = NaN \<or> attention r = NaN \<Longrightarrow> get_quadrant t (round_row r) = label_IV"
  by (auto simp: get_quadrant_def round_row_def)

lemma pipeline_success:
  assumes "selected_data df d = Inr row"
    and "sentiments row = Inr ss" and "attention_values row = Inr as"
  shows "pipeline df d t
    = Inr (chart_layout t d risk_categories ss as,
           formatted_risk_data t (zip risk_categories (zip ss as)))"
  using assms by (simp add: pipeline_def)

lemma table_row_origin:
  assumes "r \<in> set (formatted_risk_data t triples)"
  shows "\<exists>c s a. (c, s, a) \<in> set triples \<and> category r = c
    \<and> (sentiment r = NaN) = (s = NaN) \<and> (attention r = NaN) = (a = NaN)
    \<and> quadrant r = get_quadrant t (round_row \<lparr>category = c, sentiment = s, attention = a\<rparr>)"
proof -
  from assms obtain tr where tr: "tr \<in> set triples"
    and r: "r = add_quadrant t (round_row (mk_row tr))"
    by (auto simp: formatted_risk_data_def risk_data_def set_sort_values)
  obtain c s a where csa: "tr = (c, s, a)"
    by (cases tr) auto
  have "(round_f 3 s = NaN) = (s = NaN)" and "(round_f 3 a = NaN) = (a = NaN)"
    by (cases s; simp) (cases a; simp)
  with tr r csa show ?thesis
    by (auto simp: add_quadrant_def round_row_def mk_row_def)
qed

lemma table_categories:
  assumes "length ss = length cats" and "length as = length cats"
  shows "mset (map category (formatted_risk_data t (zip cats (zip ss as)))) = mset cats"
proof -
  have "map category (formatted_risk_data t (zip cats (zip ss as)))
      = map category (sort_values (map mk_row (zip cats (zip ss as))))"
    by (simp add: formatted_risk_data_def risk_data_def add_quadrant_def round_row_def comp_def)
  then have "mset (map category (formatted_risk_data t (zip cats (zip ss as))))
      = image_mset category (mset (map mk_row (zip cats (zip ss as))))"
    by (simp add: mset_sort_values)
  also have "\<dots> = mset (map (\<lambda>tr. category (mk_row tr)) (zip cats (zip ss as)))"
    by (simp add: image_mset.compositionality comp_def)
  also have "(\<lambda>tr. category (mk_row tr)) = (fst :: ustring \<times> pyfloat \<times> pyfloat \<Rightarrow> ustring)"
    by (auto simp: mk_row_def)
  also have "map fst (zip cats (zip ss as)) = cats"
    using assms by simp
  finally show ?thesis .
qed

lemma interest_rate_nan_sheet:
  "sentiments (sheet_row ts
       [NaN, Val (1/5), Val (1/5), Val (1/5), Val (1/5), Val (1/5), Val (1/5), Val (1/5), Val (1/5)]
       [Val (1/2), Val (1/2), Val (1/2), Val (1/2), Val (1/2), Val (1/2), Val (1/2), Val (1/2),
        Val (1/2)])
     = Inr [NaN, Val (1/5), Val (1/5), Val (1/5), Val (1/5), Val (1/5), Val (1/5), Val (1/5),
            Val (1/5)]"
  "attention_values (sheet_row ts
       [NaN, Val (1/5), Val (1/5), Val (1/5), Val (1/5), Val (1/5), Val (1/5), Val (1/5), Val (1/5)]
       [Val (1/2), Val (1/2), Val (1/2), Val (1/2), Val (1/2), Val (1/2), Val (1/2), Val (1/2),
        Val (1/2)])
     = Inr [Val (1/2), Val (1/2), Val (1/2), Val (1/2), Val (1/2), Val (1/2), Val (1/2),
            Val (1/2), Val (1/2)]"
  by (simp_all add: sentiments_def attention_values_def sheet_row_def risk_categories_def
      sentiment_col_def attention_col_def get_cell_def)

text \<open>
  Claim C5, as stated, fails on the code. The sheet has all eighteen columns and the
  sentiment cell of the first category (interest rate) is empty, so NaN. The pass does not
  fail: it returns a chart and a table, and the table row of that category carries the
  label of quadrant IV.
\<close>

theorem nan_sentiment_classified_IV:
  "\<exists>lay tab.
     pipeline
       [sheet_row \<lparr>ts_date = \<lparr>year = 2024, month = 1, day = 5\<rparr>, ts_nanos = 0\<rparr>
          [NaN, Val (1/5), Val (1/5), Val (1/5), Val (1/5), Val (1/5), Val (1/5), Val (1/5),
           Val (1/5)]
          [Val (1/2), Val (1/2), Val (1/2), Val (1/2), Val (1/2), Val (1/2), Val (1/2),
           Val (1/2), Val (1/2)]]
       \<lparr>year = 2024, month = 1, day = 5\<rparr> (3/10)
     = Inr (lay, tab)
     \<and> \<lparr>category = [0x5229, 0x7387], sentiment = NaN, attention = Val (1/2),
         quadrant = label_IV\<rparr> \<in> set tab"
proof -
  let ?ts = "\<lparr>ts_date = \<lparr>year = 2024, month = 1, day = 5\<rparr>, ts_nanos = 0\<rparr>"
  let ?ss = "[NaN, Val (1/5), Val (1/5), Val (1/5), Val (1/5), Val (1/5), Val (1/5), Val (1/5),
           Val (1/5)]"
  let ?as = "[Val (1/2), Val (1/2), Val (1/2), Val (1/2), Val (1/2), Val (1/2), Val (1/2),
           Val (1/2), Val (1/2)]"
  let ?d = "\<lparr>year = 2024, month = 1, day = 5\<rparr>"
  have sel: "selected_data [sheet_row ?ts ?ss ?as] ?d = Inr (sheet_row ?ts ?ss ?as)"
    by (simp add: selected_data_def sheet_row_def)
  have p: "pipeline [sheet_row ?ts ?ss ?as] ?d (3/10)
      = Inr (chart_layout (3/10) ?d risk_categories ?ss ?as,
             formatted_risk_data (3/10) (zip risk_categories (zip ?ss ?as)))"
    by (rule pipeline_success [OF sel interest_rate_nan_sheet])
  have "([0x5229, 0x7387], NaN, Val (1/2)) \<in> set (zip risk_categories (zip ?ss ?as))"
    by (simp add: risk_categories_def)
  then have "add_quadrant (3/10) (round_row (mk_row ([0x5229, 0x7387], NaN, Val (1/2))))
      \<in> set (formatted_risk_data (3/10) (zip risk_categories (zip ?ss ?as)))"
    by (simp add: formatted_risk_data_def risk_data_def set_sort_values del: zip_Cons_Cons)
  moreover have "add_quadrant (3/10) (round_row (mk_row ([0x5229, 0x7387], NaN, Val (1/2))))
      = \<lparr>category = [0x5229, 0x7387], sentiment = NaN, attention = Val (1/2),
         quadrant = label_IV\<rparr>"
    by (simp add: add_quadrant_def round_row_def mk_row_def get_quadrant_def rint_def)
  ultimately show ?thesis
    using p by simp
qed

text \<open>
  Claim C5, amended. For the selected row: if the row lacks the sentiment or the attention
  column of one of the nine categories, the pass fails with a \<^verbatim>\<open>KeyError\<close> and produces no
  chart and no table. If the row has all the columns, the pass does not fail, the table
  has one row for each category, and a category whose sentiment or attention value is NaN
  is labelled quadrant IV.
\<close>

theorem missing_column_fails_nan_is_IV:
  assumes "selected_data df d = Inr row"
  shows "((\<exists>c\<in>set risk_categories.
             cells row (sentiment_col c) = None \<or> cells row (attention_col c) = None)
          \<longrightarrow> (\<exists>k. pipeline df d t = Inl (KeyError k)))
       \<and> ((\<forall>c\<in>set risk_categories.
              cells row (sentiment_col c) \<noteq> None \<and> cells row (attention_col c) \<noteq> None)
          \<longrightarrow> (\<exists>lay tab. pipeline df d t = Inr (lay, tab)
                \<and> mset (map category tab) = mset risk_categories
                \<and> (\<forall>r\<in>set tab.
                      cells row (sentiment_col (category r)) = Some NaN
                        \<or> cells row (attention_col (category r)) = Some NaN
                      \<longrightarrow> quadrant r = label_IV)))"
proof (intro conjI impI)
  assume "\<exists>c\<in>set risk_categories.
    cells row (sentiment_col c) = None \<or> cells row (attention_col c) = None"
  then consider
    "\<exists>k\<in>set (map sentiment_col risk_categories). cells row k = None"
    | "\<exists>k\<in>set (map attention_col risk_categories). cells row k = None"
    by auto
  then show "\<exists>k. pipeline df d t = Inl (KeyError k)"
  proof cases
    case 1
    then obtain k where "sentiments row = Inl (KeyError k)"
      unfolding sentiments_def using get_cells_missing by blast
    with assms show ?thesis by (simp add: pipeline_def)
  next
    case 2
    then obtain k where k: "attention_values row = Inl (KeyError k)"
      unfolding attention_values_def using get_cells_missing by blast
    show ?thesis
    proof (cases "sentiments row")
      case (Inl e)
      then obtain k' where "e = KeyError k'"
        unfolding sentiments_def using get_cells_only_KeyError by blast
      with Inl assms show ?thesis by (simp add: pipeline_def)
    next
      case (Inr ss)
      with k assms show ?thesis by (simp add: pipeline_def)
    qed
  qed
next
  assume all: "\<forall>c\<in>set risk_categories.
    cells row (sentiment_col c) \<noteq> None \<and> cells row (attention_col c) \<noteq> None"
  then obtain ss where ss: "sentiments row = Inr ss"
    unfolding sentiments_def using get_cells_present [of "map sentiment_col risk_categories" row]
    by auto
  from all obtain as where as: "attention_values row = Inr as"
    unfolding attention_values_def
    using get_cells_present [of "map attention_col risk_categories" row]
    by auto
  have ms: "map (cells row) (map sentiment_col risk_categories) = map Some ss"
    using ss unfolding sentiments_def by (rule get_cells_Inr)
  have ma: "map (cells row) (map attention_col risk_categories) = map Some as"
    using as unfolding attention_values_def by (rule get_cells_Inr)
  have ls: "length ss = length risk_categories"
    using ms by (metis length_map)
  have la: "length as = length risk_categories"
    using ma by (metis length_map)
  let ?tab = "formatted_risk_data t (zip risk_categories (zip ss as))"
  have p: "pipeline df d t = Inr (chart_layout t d risk_categories ss as, ?tab)"
    by (rule pipeline_success [OF assms ss as])
  have cats: "mset (map category ?tab) = mset risk_categories"
    by (rule table_categories [OF ls la])
  have nan: "quadrant r = label_IV"
    if r: "r \<in> set ?tab"
      and n: "cells row (sentiment_col (category r)) = Some NaN
        \<or> cells row (attention_col (category r)) = Some NaN"
    for r
  proof -
    from table_row_origin [OF r] obtain c s a
      where tr: "(c, s, a) \<in> set (zip risk_categories (zip ss as))"
        and c: "category r = c"
        and q: "quadrant r
          = get_quadrant t (round_row \<lparr>category = c, sentiment = s, attention = a\<rparr>)"
      by blast
    from tr have "(c, s) \<in> set (zip risk_categories ss)" and "(c, a) \<in> set (zip risk_categories as)"
      by (auto simp: in_set_zip)
    then have "cells row (sentiment_col c) = Some s" and "cells row (attention_col c) = Some a"
      using zip_cells [OF ms] zip_cells [OF ma] by blast+
    with n c have "s = NaN \<or> a = NaN" by auto
    then show ?thesis
      using q nan_row_label_IV [of "\<lparr>category = c, sentiment = s, attention = a\<rparr>" t] by simp
  qed
  show "\<exists>lay tab. pipeline df d t = Inr (lay, tab)
      \<and> mset (map category tab) = mset risk_categories
      \<and> (\<forall>r\<in>set tab.
            cells row (sentiment_col (category r)) = Some NaN
              \<or> cells row (attention_col (category r)) = Some NaN
            \<longrightarrow> quadrant r = label_IV)"
    using p cats nan by blast
qed
theorem missing_column_fails_nan_is_IV_witness:
  "(\<exists>k. pipeline
        [sheet_row \<lparr>ts_date = \<lparr>year = 2024, month = 1, day = 5\<rparr>, ts_nanos = 0\<rparr>
           [Val (1/5), Val (1/5), Val (1/5), Val (1/5), Val (1/5), Val (1/5), Val (1/5),
            Val (1/5)]
           [Val (1/2), Val (1/2), Val (1/2), Val (1/2), Val (1/2), Val (1/2), Val (1/2),
            Val (1/2), Val (1/2)]]
        \<lparr>year = 2024, month = 1, day = 5\<rparr> (3/10)
      = Inl (KeyError k))
   \<and> (\<exists>lay tab.
        pipeline
          [sheet_row \<lparr>ts_date = \<lparr>year = 2024, month = 1, day = 5\<rparr>, ts_nanos = 0\<rparr>
             [Val (1/5), Val (1/5), Val (1/5), Val (1/5), Val (1/5), Val (1/5), Val (1/5),
              Val (1/5), Val (1/5)]
             [Val (1/2), Val (1/2), Val (1/2), NaN, Val (1/2), Val (1/2), Val (1/2),
              Val (1/2), Val (1/2)]]
          \<lparr>year = 2024, month = 1, day = 5\<rparr> (3/10)
        = Inr (lay, tab)
        \<and> mset (map category tab) = mset risk_categories
        \<and> (\<forall>r\<in>set tab. category r = [0x653F, 0x7B56] \<longrightarrow> quadrant r = label_IV))"
proof -
  let ?ts = "\<lparr>ts_date = \<lparr>year = 2024, month = 1, day = 5\<rparr>, ts_nanos = 0\<rparr>"
  let ?d = "\<lparr>year = 2024, month = 1, day = 5\<rparr>"
  let ?s8 = "[Val (1/5), Val (1/5), Val (1/5), Val (1/5), Val (1/5), Val (1/5), Val (1/5),
            Val (1/5)]"
  let ?s9 = "[Val (1/5), Val (1/5), Val (1/5), Val (1/5), Val (1/5), Val (1/5), Val (1/5),
              Val (1/5), Val (1/5)]"
  let ?a9 = "[Val (1/2), Val (1/2), Val (1/2), Val (1/2), Val (1/2), Val (1/2), Val (1/2),
            Val (1/2), Val (1/2)]"
  let ?an = "[Val (1/2), Val (1/2), Val (1/2), NaN, Val (1/2), Val (1/2), Val (1/2),
              Val (1/2), Val (1/2)]"
  have sel1: "selected_data [sheet_row ?ts ?s8 ?a9] ?d = Inr (sheet_row ?ts ?s8 ?a9)"
    by (simp add: selected_data_def sheet_row_def)
  have miss: "\<exists>c\<in>set risk_categories.
      cells (sheet_row ?ts ?s8 ?a9) (sentiment_col c) = None
        \<or> cells (sheet_row ?ts ?s8 ?a9) (attention_col c) = None"
    by (simp add: risk_categories_def sheet_row_def sentiment_col_def attention_col_def)
  have first: "\<exists>k. pipeline [sheet_row ?ts ?s8 ?a9] ?d (3/10) = Inl (KeyError k)"
    using missing_column_fails_nan_is_IV [OF sel1, of "3/10"] miss by blast
  have sel2: "selected_data [sheet_row ?ts ?s9 ?an] ?d = Inr (sheet_row ?ts ?s9 ?an)"
    by (simp add: selected_data_def sheet_row_def)
  have pres: "\<forall>c\<in>set risk_categories.
      cells (sheet_row ?ts ?s9 ?an) (sentiment_col c) \<noteq> None
        \<and> cells (sheet_row ?ts ?s9 ?an) (attention_col c) \<noteq> None"
    by (simp add: risk_categories_def sheet_row_def sentiment_col_def attention_col_def)
  have nan: "cells (sheet_row ?ts ?s9 ?an) (attention_col [0x653F, 0x7B56]) = Some NaN"
    by (simp add: risk_categories_def sheet_row_def sentiment_col_def attention_col_def)
  from missing_column_fails_nan_is_IV [OF sel2, of "3/10"] pres
  obtain lay tab where p: "pipeline [sheet_row ?ts ?s9 ?an] ?d (3/10) = Inr (lay, tab)"
    and c: "mset (map category tab) = mset risk_categories"
    and q: "\<forall>r\<in>set tab.
        cells (sheet_row ?ts ?s9 ?an) (sentiment_col (category r)) = Some NaN
          \<or> cells (sheet_row ?ts ?s9 ?an) (attention_col (category r)) = Some NaN
        \<longrightarrow> quadrant r = label_IV"
    by blast
  from q nan have "\<forall>r\<in>set tab. category r = [0x653F, 0x7B56] \<longrightarrow> quadrant r = label_IV"
    by auto
  with p c first show ?thesis by blast
qed

section \<open>Properties of the loader\<close>





section \<open>Properties of the chart\<close>










lemma on_gca_last:
  "on_gca f \<lparr>figures = fs @ [a], font_sans_serif = fo, axes_unicode_minus = m\<rparr>
     = \<lparr>figures = fs @ [f a], font_sans_serif = fo, axes_unicode_minus = m\<rparr>"
  by (simp add: on_gca_def)

lemma fold_plt_annotate:
  "fold (\<lambda>(txt, xy). plt_annotate txt xy) xs
       \<lparr>figures = fs @ [a], font_sans_serif = fo, axes_unicode_minus = m\<rparr>
     = \<lparr>figures = fs @ [a\<lparr>annotations :=
            annotations a @ map (\<lambda>(txt, xy). (txt, xy, (5, 5))) xs\<rparr>],
        font_sans_serif = fo, axes_unicode_minus = m\<rparr>"
proof (induction xs arbitrary: a)
  case Nil
  then show ?case by simp
next
  case (Cons x xs)
  obtain lab xy where x: "x = (lab, xy)" by (cases x) auto
  have step: "plt_annotate lab xy
        \<lparr>figures = fs @ [a], font_sans_serif = fo, axes_unicode_minus = m\<rparr>
      = \<lparr>figures = fs @ [a\<lparr>annotations := annotations a @ [(lab, xy, (5, 5))]\<rparr>],
         font_sans_serif = fo, axes_unicode_minus = m\<rparr>"
    by (simp add: plt_annotate_def on_gca_last)
  have "fold (\<lambda>(txt, xy). plt_annotate txt xy) (x # xs)
        \<lparr>figures = fs @ [a], font_sans_serif = fo, axes_unicode_minus = m\<rparr>
      = fold (\<lambda>(txt, xy). plt_annotate txt xy) xs
          \<lparr>figures = fs @ [a\<lparr>annotations := annotations a @ [(lab, xy, (5, 5))]\<rparr>],
           font_sans_serif = fo, axes_unicode_minus = m\<rparr>"
    by (simp add: x step)
  also have "\<dots> = \<lparr>figures = fs @ [a\<lparr>annotations :=
            annotations a @ map (\<lambda>(txt, xy). (txt, xy, (5, 5))) (x # xs)\<rparr>],
        font_sans_serif = fo, axes_unicode_minus = m\<rparr>"
    by (simp add: Cons.IH x)
  finally show ?case .
qed

lemma draw_chart_result:
  "draw_chart t d ss as st
     = (length (figures st),
        \<lparr>figures = figures st @ [chart_layout t d risk_categories ss as],
         font_sans_serif = [ustr ''Arial Unicode MS''], axes_unicode_minus = False\<rparr>)"
proof -
  obtain fs fo m where st: "st = \<lparr>figures = fs, font_sans_serif = fo, axes_unicode_minus = m\<rparr>"
    by (cases st) auto
  show ?thesis
    unfolding st draw_chart_def plt_subplots_def
    by (simp add: Let_def plt_scatter_def plt_axhline_def plt_axvline_def plt_xlim_def
        plt_ylim_def plt_xlabel_def plt_ylabel_def plt_text_def plt_title_def on_gca_last
        fold_plt_annotate new_axes_def chart_layout_def)
qed

lemma run_pass_output: "fst (run_pass df d t st) = pipeline df d t"
  by (simp add: run_pass_def pipeline_def draw_chart_result st_pyplot_def split: sum.splits)

lemma run_pass_state_Inr:
  assumes "pipeline df d t = Inr (lay, tab)"
  shows "snd (run_pass df d t st)
    = \<lparr>figures = figures st @ [lay], font_sans_serif = [ustr ''Arial Unicode MS''],
       axes_unicode_minus = False\<rparr>"
  using assms
  by (auto simp: run_pass_def pipeline_def draw_chart_result split: sum.splits)

lemma run_pass_state_Inl:
  assumes "pipeline df d t = Inl e"
  shows "snd (run_pass df d t st) = st"
  using assms
  by (auto simp: run_pass_def pipeline_def draw_chart_result split: sum.splits)




section \<open>Properties of a rendering pass\<close>

text \<open>
  Claim C10, as stated, fails on the code: the claim says that no hidden state is mutated
  between runs. A pass that succeeds changes the global state of the plotting library:
  started with no open figure and the default \<^verbatim>\<open>rcParams\<close>, the pass on the sheet below
  leaves one open figure, the font list of line 71 and the minus-sign setting of line 72.
\<close>

theorem run_pass_mutates_pyplot_state:
  "snd (run_pass
       [sheet_row \<lparr>ts_date = \<lparr>year = 2024, month = 1, day = 5\<rparr>, ts_nanos = 0\<rparr>
          [NaN, Val (1/5), Val (1/5), Val (1/5), Val (1/5), Val (1/5), Val (1/5), Val (1/5),
           Val (1/5)]
          [Val (1/2), Val (1/2), Val (1/2), Val (1/2), Val (1/2), Val (1/2), Val (1/2),
           Val (1/2), Val (1/2)]]
       \<lparr>year = 2024, month = 1, day = 5\<rparr> (3/10)
       \<lparr>figures = [], font_sans_serif = [ustr ''DejaVu Sans''], axes_unicode_minus = True\<rparr>)
     = \<lparr>figures =
          [chart_layout (3/10) \<lparr>year = 2024, month = 1, day = 5\<rparr> risk_categories
             [NaN, Val (1/5), Val (1/5), Val (1/5), Val (1/5), Val (1/5), Val (1/5), Val (1/5),
              Val (1/5)]
             [Val (1/2), Val (1/2), Val (1/2), Val (1/2), Val (1/2), Val (1/2), Val (1/2),
              Val (1/2), Val (1/2)]],
        font_sans_serif = [ustr ''Arial Unicode MS''], axes_unicode_minus = False\<rparr>
   \<and> snd (run_pass
       [sheet_row \<lparr>ts_date = \<lparr>year = 2024, month = 1, day = 5\<rparr>, ts_nanos = 0\<rparr>
          [NaN, Val (1/5), Val (1/5), Val (1/5), Val (1/5), Val (1/5), Val (1/5), Val (1/5),
           Val (1/5)]
          [Val (1/2), Val (1/2), Val (1/2), Val (1/2), Val (1/2), Val (1/2), Val (1/2),
           Val (1/2), Val (1/2)]]
       \<lparr>year = 2024, month = 1, day = 5\<rparr> (3/10)
       \<lparr>figures = [], font_sans_serif = [ustr ''DejaVu Sans''], axes_unicode_minus = True\<rparr>)
     \<noteq> \<lparr>figures = [], font_sans_serif = [ustr ''DejaVu Sans''], axes_unicode_minus = True\<rparr>"
proof -
  let ?ts = "\<lparr>ts_date = \<lparr>year = 2024, month = 1, day = 5\<rparr>, ts_nanos = 0\<rparr>"
  let ?ss = "[NaN, Val (1/5), Val (1/5), Val (1/5), Val (1/5), Val (1/5), Val (1/5), Val (1/5),
           Val (1/5)]"
  let ?as = "[Val (1/2), Val (1/2), Val (1/2), Val (1/2), Val (1/2), Val (1/2), Val (1/2),
           Val (1/2), Val (1/2)]"
  let ?d = "\<lparr>year = 2024, month = 1, day = 5\<rparr>"
  have sel: "selected_data [sheet_row ?ts ?ss ?as] ?d = Inr (sheet_row ?ts ?ss ?as)"
    by (simp add: selected_data_def sheet_row_def)
  have p: "pipeline [sheet_row ?ts ?ss ?as] ?d (3/10)
      = Inr (chart_layout (3/10) ?d risk_categories ?ss ?as,
             formatted_risk_data (3/10) (zip risk_categories (zip ?ss ?as)))"
    by (rule pipeline_success [OF sel interest_rate_nan_sheet])
  show ?thesis
    unfolding run_pass_state_Inr [OF p] by simp
qed

text \<open>
  Claim C10, amended. What a pass shows, the figure and the table or the exception that
  ended it, is a function of the table, the date and the threshold alone: it is the same
  from every state of the plotting library, so a second pass on the same inputs, started
  in the state the first pass left, shows the same as the first. The state itself is
  mutated by every pass that succeeds: the pass leaves the figure it has shown open, after
  the figures that were open before, and sets the two \<^verbatim>\<open>rcParams\<close> entries; a pass ended by
  an exception leaves the state as it was.
\<close>

theorem run_pass_deterministic:
  "fst (run_pass df d t (snd (run_pass df d t st))) = fst (run_pass df d t st)
   \<and> fst (run_pass df d t st') = fst (run_pass df d t st)
   \<and> fst (run_pass df d t st) = pipeline df d t
   \<and> (\<forall>lay tab. fst (run_pass df d t st) = Inr (lay, tab) \<longrightarrow>
        snd (run_pass df d t st)
          = \<lparr>figures = figures st @ [lay], font_sans_serif = [ustr ''Arial Unicode MS''],
             axes_unicode_minus = False\<rparr>)
   \<and> (\<forall>e. fst (run_pass df d t st) = Inl e \<longrightarrow> snd (run_pass df d t st) = st)"
proof -
  have out: "fst (run_pass df d t s) = pipeline df d t" for s
    by (rule run_pass_output)
  have ok: "\<forall>lay tab. fst (run_pass df d t st) = Inr (lay, tab) \<longrightarrow>
        snd (run_pass df d t st)
          = \<lparr>figures = figures st @ [lay], font_sans_serif = [ustr ''Arial Unicode MS''],
             axes_unicode_minus = False\<rparr>"
    unfolding out using run_pass_state_Inr by blast
  have err: "\<forall>e. fst (run_pass df d t st) = Inl e \<longrightarrow> snd (run_pass df d t st) = st"
    unfolding out using run_pass_state_Inl by blast
  from out ok err show ?thesis by simp
qed

theorem run_pass_deterministic_witness:
  "fst (run_pass
       [\<lparr>obs_date = \<lparr>ts_date = \<lparr>year = 2024, month = 1, day = 5\<rparr>, ts_nanos = 0\<rparr>,
         cells = Map.empty\<rparr>]
       \<lparr>year = 2024, month = 1, day = 5\<rparr> (3/10)
       \<lparr>figures = [], font_sans_serif = [], axes_unicode_minus = True\<rparr>)
     = Inl (KeyError (sentiment_col [0x5229, 0x7387]))
   \<and> snd (run_pass
       [\<lparr>obs_date = \<lparr>ts_date = \<lparr>year = 2024, month = 1, day = 5\<rparr>, ts_nanos = 0\<rparr>,
         cells = Map.empty\<rparr>]
       \<lparr>year = 2024, month = 1, day = 5\<rparr> (3/10)
       \<lparr>figures = [], font_sans_serif = [], axes_unicode_minus = True\<rparr>)
     = \<lparr>figures = [], font_sans_serif = [], axes_unicode_minus = True\<rparr>
   \<and> (\<exists>lay tab.
        fst (run_pass
          [sheet_row \<lparr>ts_date = \<lparr>year = 2024, month = 1, day = 5\<rparr>, ts_nanos = 0\<rparr>
             [NaN, Val (1/5), Val (1/5), Val (1/5), Val (1/5), Val (1/5), Val (1/5), Val (1/5),
              Val (1/5)]
             [Val (1/2), Val (1/2), Val (1/2), Val (1/2), Val (1/2), Val (1/2), Val (1/2),
              Val (1/2), Val (1/2)]]
          \<lparr>year = 2024, month = 1, day = 5\<rparr> (3/10)
          \<lparr>figures = [new_axes], font_sans_serif = [], axes_unicode_minus = True\<rparr>)
        = Inr (lay, tab)
        \<and> snd (run_pass
          [sheet_row \<lparr>ts_date = \<lparr>year = 2024, month = 1, day = 5\<rparr>, ts_nanos = 0\<rparr>
             [NaN, Val (1/5), Val (1/5), Val (1/5), Val (1/5), Val (1/5), Val (1/5), Val (1/5),
              Val (1/5)]
             [Val (1/2), Val (1/2), Val (1/2), Val (1/2), Val (1/2), Val (1/2), Val (1/2),
              Val (1/2), Val (1/2)]]
          \<lparr>year = 2024, month = 1, day = 5\<rparr> (3/10)
          \<lparr>figures = [new_axes], font_sans_serif = [], axes_unicode_minus = True\<rparr>)
        = \<lparr>figures = [new_axes, lay], font_sans_serif = [ustr ''Arial Unicode MS''],
           axes_unicode_minus = False\<rparr>)"
proof -
  let ?ts = "\<lparr>ts_date = \<lparr>year = 2024, month = 1, day = 5\<rparr>, ts_nanos = 0\<rparr>"
  let ?ss = "[NaN, Val (1/5), Val (1/5), Val (1/5), Val (1/5), Val (1/5), Val (1/5), Val (1/5),
           Val (1/5)]"
  let ?as = "[Val (1/2), Val (1/2), Val (1/2), Val (1/2), Val (1/2), Val (1/2), Val (1/2),
           Val (1/2), Val (1/2)]"
  let ?d = "\<lparr>year = 2024, month = 1, day = 5\<rparr>"
  let ?empty = "[\<lparr>obs_date = ?ts, cells = Map.empty\<rparr>] :: table"
  let ?s0 = "\<lparr>figures = [], font_sans_serif = [], axes_unicode_minus = True\<rparr>"
  let ?s1 = "\<lparr>figures = [new_axes], font_sans_serif = [], axes_unicode_minus = True\<rparr>"
  have e: "pipeline ?empty ?d (3/10) = Inl (KeyError (sentiment_col [0x5229, 0x7387]))"
    by (simp add: pipeline_def selected_data_def sentiments_def risk_categories_def
        get_cell_def)
  have a: "fst (run_pass ?empty ?d (3/10) ?s0) = Inl (KeyError (sentiment_col [0x5229, 0x7387]))"
    using run_pass_deterministic [of ?empty ?d "3/10" ?s0] e by simp
  then have b: "snd (run_pass ?empty ?d (3/10) ?s0) = ?s0"
    using run_pass_deterministic [of ?empty ?d "3/10" ?s0] by blast
  have sel: "selected_data [sheet_row ?ts ?ss ?as] ?d = Inr (sheet_row ?ts ?ss ?as)"
    by (simp add: selected_data_def sheet_row_def)
  have p: "pipeline [sheet_row ?ts ?ss ?as] ?d (3/10)
      = Inr (chart_layout (3/10) ?d risk_categories ?ss ?as,
             formatted_risk_data (3/10) (zip risk_categories (zip ?ss ?as)))"
    by (rule pipeline_success [OF sel interest_rate_nan_sheet])
  have c: "fst (run_pass [sheet_row ?ts ?ss ?as] ?d (3/10) ?s1)
      = Inr (chart_layout (3/10) ?d risk_categories ?ss ?as,
             formatted_risk_data (3/10) (zip risk_categories (zip ?ss ?as)))"
    using run_pass_deterministic [of "[sheet_row ?ts ?ss ?as]" ?d "3/10" ?s1] p by simp
  then have "snd (run_pass [sheet_row ?ts ?ss ?as] ?d (3/10) ?s1)
      = \<lparr>figures = figures ?s1 @ [chart_layout (3/10) ?d risk_categories ?ss ?as],
         font_sans_serif = [ustr ''Arial Unicode MS''], axes_unicode_minus = False\<rparr>"
    using run_pass_deterministic [of "[sheet_row ?ts ?ss ?as]" ?d "3/10" ?s1] by blast
  with a b c show ?thesis by simp
qed

end
